theory Spec2Isabelle
  imports Complex_Main "HOL-Library.Sublist" "HOL-Library.Product_Lexorder"
begin

section \<open>The dashboard's derived metrics (app.py)\<close>

text \<open>
  app.py is a Streamlit script: it loads two tables with pandas, reads the sidebar
  widgets and computes, top to bottom, the figures the page shows. The definitions below
  embed those computations. A pandas frame is the list of its rows, in row order; a
  widget value or a loaded table the script reads is an argument of the function that
  embeds the lines reading it.
\<close>

subsection \<open>Tables\<close>

text \<open>
  \<^verbatim>\<open>district_intelligence.csv\<close>: one row per district. The counts and the anomaly flag
  are integer columns, \<^verbatim>\<open>avg_ATI\<close> a float column holding numbers.
\<close>

record district_row =
  state :: string
  district :: string
  total_5_17 :: int
  total_17_plus :: int
  avg_ATI :: real
  anomaly_flag :: int

text \<open>
  \<^verbatim>\<open>time_trends.csv\<close>: one row per month. \<^verbatim>\<open>load_data\<close> adds the column
  \<^verbatim>\<open>date\<close>, the first day of the row's month; it is the pair (year, month) here, and
  pairs are compared year first. \<^verbatim>\<open>pd.to_datetime\<close> accepts the months 1 to 12 only, so
  these are the months of a loaded table.
\<close>

record trend_row =
  year :: int
  month :: int
  tt_total_5_17 :: int
  tt_total_17_plus :: int

definition date :: "trend_row \<Rightarrow> int \<times> int" where
  "date r = (year r, month r)"

subsection \<open>numpy's float64 results\<close>

text \<open>
  numpy and pandas do not raise on a division by zero or on a root of a negative number:
  they warn and return \<^verbatim>\<open>inf\<close>, \<^verbatim>\<open>-inf\<close> or \<^verbatim>\<open>nan\<close> (pandas shows \<^verbatim>\<open>nan\<close> as a
  missing value). A float64 result is therefore a finite number or one of these three.
  The operations \<open>np_div\<close>, \<open>np_shift\<close>, \<open>np_scale\<close>, \<open>np_power\<close> and \<open>np_root\<close> below
  compute a finite result exactly, without rounding or overflow: the forecast and the
  scenario planner are stated with them, as the formulas the program evaluates. The
  operations \<open>f64_div\<close>, \<open>f64_shift\<close> and \<open>f64_scale\<close> further down round as float64
  does; the growth percentages, whose values are compared with literal numbers, use
  those.
\<close>

datatype npfloat = Fin real | PInf | NInf | NaN

text \<open>\<^verbatim>\<open>a / b\<close> of two finite numbers; the divisors of app.py come from integers, so a
  zero divisor is \<^verbatim>\<open>+0.0\<close>.\<close>

definition np_div :: "real \<Rightarrow> real \<Rightarrow> npfloat" where
  "np_div a b =
     (if b \<noteq> 0 then Fin (a / b)
      else if a > 0 then PInf
      else if a < 0 then NInf
      else NaN)"

text \<open>\<^verbatim>\<open>x + c\<close> and \<^verbatim>\<open>c * x\<close> for a finite \<open>c\<close>.\<close>

fun np_shift :: "real \<Rightarrow> npfloat \<Rightarrow> npfloat" where
  "np_shift c (Fin x) = Fin (x + c)"
| "np_shift c PInf = PInf"
| "np_shift c NInf = NInf"
| "np_shift c NaN = NaN"

fun np_scale :: "real \<Rightarrow> npfloat \<Rightarrow> npfloat" where
  "np_scale c (Fin x) = Fin (c * x)"
| "np_scale c PInf = (if c > 0 then PInf else if c < 0 then NInf else NaN)"
| "np_scale c NInf = (if c > 0 then NInf else if c < 0 then PInf else NaN)"
| "np_scale c NaN = NaN"

text \<open>\<^verbatim>\<open>x ** i\<close> for an integer \<open>i \<ge> 0\<close> (C's \<^verbatim>\<open>pow\<close>: anything to the power 0 is 1).\<close>

fun np_power :: "npfloat \<Rightarrow> nat \<Rightarrow> npfloat" where
  "np_power x 0 = Fin 1"
| "np_power (Fin x) i = Fin (x ^ i)"
| "np_power PInf i = PInf"
| "np_power NInf i = (if odd i then NInf else PInf)"
| "np_power NaN i = NaN"

text \<open>\<^verbatim>\<open>x ** e\<close> for a finite exponent \<open>e\<close> strictly between 0 and 1 (C's \<^verbatim>\<open>pow\<close>: a
  negative finite base gives \<^verbatim>\<open>nan\<close>, both infinities give \<^verbatim>\<open>inf\<close>).\<close>

fun np_root :: "npfloat \<Rightarrow> real \<Rightarrow> npfloat" where
  "np_root (Fin x) e = (if x < 0 then NaN else Fin (x powr e))"
| "np_root PInf e = PInf"
| "np_root NInf e = PInf"
| "np_root NaN e = NaN"

fun is_finite :: "npfloat \<Rightarrow> bool" where
  "is_finite (Fin x) = True"
| "is_finite PInf = False"
| "is_finite NInf = False"
| "is_finite NaN = False"

subsection \<open>float64 rounding\<close>

text \<open>
  A float64 has a 53-bit significand. A real number \<open>x\<close> with
  \<open>2 ^ e \<le> \<bar>x\<bar> < 2 ^ (e + 1)\<close> is rounded to the nearest multiple of
  \<open>2 ^ (e - 52)\<close> (of \<open>2 ^ (- 1074)\<close> in the subnormal range), a tie going to the even
  multiple; a rounded magnitude of \<open>2 ^ 1024\<close> or more is an infinity. The sign of a
  zero is not kept.
\<close>

definition pow2 :: "int \<Rightarrow> real" where
  "pow2 k = (if 0 \<le> k then 2 ^ nat k else 1 / 2 ^ nat (- k))"

definition rne :: "real \<Rightarrow> int" where
  "rne q =
     (let f = \<lfloor>q\<rfloor>; d = q - real_of_int f
      in if d < 1 / 2 then f
         else if 1 / 2 < d then f + 1
         else if even f then f else f + 1)"

definition ilog2 :: "real \<Rightarrow> int" where
  "ilog2 x = \<lfloor>log 2 \<bar>x\<bar>\<rfloor>"

definition round64 :: "real \<Rightarrow> real" where
  "round64 x =
     (if x = 0 then 0
      else (let u = max (ilog2 x - 52) (- 1074)
            in real_of_int (rne (x / pow2 u)) * pow2 u))"

definition fl64 :: "real \<Rightarrow> npfloat" where
  "fl64 x =
     (let y = round64 x
      in if pow2 1024 \<le> \<bar>y\<bar> then (if 0 < y then PInf else NInf) else Fin y)"

text \<open>An int64 converted to float64: it is rounded, and is never an infinity.\<close>

definition f64_of_int :: "int \<Rightarrow> real" where
  "f64_of_int n = round64 (real_of_int n)"

text \<open>\<^verbatim>\<open>a / b\<close>, \<^verbatim>\<open>x + c\<close> and \<^verbatim>\<open>c * x\<close> on float64 values, each result rounded.\<close>

definition f64_div :: "real \<Rightarrow> real \<Rightarrow> npfloat" where
  "f64_div a b =
     (if b \<noteq> 0 then fl64 (a / b)
      else if a > 0 then PInf
      else if a < 0 then NInf
      else NaN)"

fun f64_shift :: "real \<Rightarrow> npfloat \<Rightarrow> npfloat" where
  "f64_shift c (Fin x) = fl64 (x + c)"
| "f64_shift c PInf = PInf"
| "f64_shift c NInf = NInf"
| "f64_shift c NaN = NaN"

fun f64_scale :: "real \<Rightarrow> npfloat \<Rightarrow> npfloat" where
  "f64_scale c (Fin x) = fl64 (c * x)"
| "f64_scale c PInf = (if c > 0 then PInf else if c < 0 then NInf else NaN)"
| "f64_scale c NInf = (if c > 0 then NInf else if c < 0 then PInf else NaN)"
| "f64_scale c NaN = NaN"

subsection \<open>int64 sums\<close>

text \<open>
  The integer columns are int64, and numpy adds them without an overflow check: the
  sum of a column is the true sum wrapped into the int64 range.
\<close>

definition wrap64 :: "int \<Rightarrow> int" where
  "wrap64 n = (n + 2 ^ 63) mod 2 ^ 64 - 2 ^ 63"

subsection \<open>The sidebar's filter (lines 87 to 98)\<close>

text \<open>
  \<^verbatim>\<open>
  filtered_data = district_profile.copy()
  if "All States" not in selected_states:
      filtered_data = filtered_data[filtered_data['state'].isin(selected_states)]
  filtered_data = filtered_data[
      (filtered_data['avg_ATI'] >= ati_range[0]) &
      (filtered_data['avg_ATI'] <= ati_range[1])
  ]
  if show_anomalies:
      filtered_data = filtered_data[filtered_data['anomaly_flag'] == -1]
  \<close>
  Indexing a frame with a boolean column keeps the rows marked true, in their order.
\<close>

definition filtered_data ::
  "district_row list \<Rightarrow> string list \<Rightarrow> real \<times> real \<Rightarrow> bool \<Rightarrow> district_row list" where
  "filtered_data district_profile selected_states ati_range show_anomalies =
     (let fd0 = district_profile;
          fd1 = (if ''All States'' \<notin> set selected_states
                 then filter (\<lambda>r. state r \<in> set selected_states) fd0
                 else fd0);
          fd2 = filter (\<lambda>r. avg_ATI r \<ge> fst ati_range \<and> avg_ATI r \<le> snd ati_range) fd1;
          fd3 = (if show_anomalies
                 then filter (\<lambda>r. anomaly_flag r = - 1) fd2
                 else fd2)
      in fd3)"

subsection \<open>The headline metrics (lines 106 to 109)\<close>




definition anomaly_count :: "district_row list \<Rightarrow> int" where
  "anomaly_count fd = sum_list (map (\<lambda>r. if anomaly_flag r = - 1 then 1 else 0) fd)"

subsection \<open>The largest rows of a column (lines 155 and 199)\<close>

text \<open>
  \<^verbatim>\<open>
  top_districts = filtered_data.nlargest(15, 'avg_ATI')
  top_demo = filtered_data.nlargest(10, 'total_17_plus')
  \<close>
  pandas' \<^verbatim>\<open>nlargest(n, column)\<close> (with the default \<^verbatim>\<open>keep='first'\<close>) has two paths.
  When \<open>n\<close> is at least the number of rows it is
  \<^verbatim>\<open>sort_values(ascending=False).head(n)\<close>; otherwise it sorts the negated column with a
  stable merge sort and keeps the first \<open>n\<close> rows. \<^verbatim>\<open>sort_values\<close> sorts with numpy's
  default quicksort, and the order that gives to rows of equal value is decided inside
  numpy, not by app.py. \<open>sort_values_desc\<close> stands for it with a stable sort; nothing
  proved below depends on the order of rows of equal value.
\<close>

definition sort_values_desc :: "(district_row \<Rightarrow> real) \<Rightarrow> district_row list \<Rightarrow> district_row list" where
  "sort_values_desc col rows = sort_key (\<lambda>r. - col r) rows"

definition nlargest :: "nat \<Rightarrow> (district_row \<Rightarrow> real) \<Rightarrow> district_row list \<Rightarrow> district_row list" where
  "nlargest n col rows =
     (if length rows \<le> n then take n (sort_values_desc col rows)
      else take n (sort_key (\<lambda>r. - col r) rows))"

definition top_districts :: "district_row list \<Rightarrow> district_row list" where
  "top_districts fd = nlargest 15 avg_ATI fd"

definition top_demo :: "district_row list \<Rightarrow> district_row list" where
  "top_demo fd = nlargest 10 (\<lambda>r. real_of_int (total_17_plus r)) fd"

subsection \<open>Year-over-year growth (lines 318 to 324)\<close>

text \<open>
  \<^verbatim>\<open>
  yearly_growth = time_trends.groupby('year').agg({
      'total_5_17': 'sum',
      'total_17_plus': 'sum'
  }).reset_index()
  yearly_growth['growth_5_17'] = yearly_growth['total_5_17'].pct_change() * 100
  yearly_growth['growth_17_plus'] = yearly_growth['total_17_plus'].pct_change() * 100
  \<close>
  \<^verbatim>\<open>groupby\<close> sorts the group keys ascending. The grouped frame is kept by columns,
  since the script assigns two new columns to it; a column not assigned yet is \<open>None\<close>.
\<close>

record yearly_frame =
  yf_year :: "int list"
  yf_total_5_17 :: "int list"
  yf_total_17_plus :: "int list"
  yf_growth_5_17 :: "npfloat list option"
  yf_growth_17_plus :: "npfloat list option"

definition group_keys :: "trend_row list \<Rightarrow> int list" where
  "group_keys tt = sort (remdups (map year tt))"

definition group_sum :: "(trend_row \<Rightarrow> int) \<Rightarrow> trend_row list \<Rightarrow> int \<Rightarrow> int" where
  "group_sum col tt y = wrap64 (sum_list (map col (filter (\<lambda>r. year r = y) tt)))"

definition groupby_year_sum :: "trend_row list \<Rightarrow> yearly_frame" where
  "groupby_year_sum tt =
     \<lparr>yf_year = group_keys tt,
      yf_total_5_17 = map (group_sum tt_total_5_17 tt) (group_keys tt),
      yf_total_17_plus = map (group_sum tt_total_17_plus tt) (group_keys tt),
      yf_growth_5_17 = None,
      yf_growth_17_plus = None\<rparr>"

text \<open>
  pandas' \<^verbatim>\<open>pct_change\<close> is \<^verbatim>\<open>s / s.shift(1) - 1\<close> on the column converted to float64:
  the first entry divides by the missing value and is \<^verbatim>\<open>nan\<close>; every other entry
  divides by its predecessor and subtracts 1. The script multiplies by 100. Each of the
  three operations rounds.
\<close>

fun pct_change :: "real list \<Rightarrow> npfloat list" where
  "pct_change [] = []"
| "pct_change (x # xs) =
     NaN # map2 (\<lambda>prev curr. f64_shift (- 1) (f64_div curr prev)) (x # xs) xs"

definition growth_pct :: "int list \<Rightarrow> npfloat list" where
  "growth_pct totals = map (f64_scale 100) (pct_change (map f64_of_int totals))"

definition assign_growth_5_17 :: "yearly_frame \<Rightarrow> yearly_frame" where
  "assign_growth_5_17 f = f\<lparr>yf_growth_5_17 := Some (growth_pct (yf_total_5_17 f))\<rparr>"

definition assign_growth_17_plus :: "yearly_frame \<Rightarrow> yearly_frame" where
  "assign_growth_17_plus f = f\<lparr>yf_growth_17_plus := Some (growth_pct (yf_total_17_plus f))\<rparr>"

definition yearly_growth :: "trend_row list \<Rightarrow> yearly_frame" where
  "yearly_growth tt = assign_growth_17_plus (assign_growth_5_17 (groupby_year_sum tt))"

subsection \<open>The demand forecast (lines 373 to 381)\<close>

text \<open>
  \<^verbatim>\<open>
  last_12_months = time_trends.tail(12)
  avg_growth = (last_12_months['total_17_plus'].iloc[-1] /
                last_12_months['total_17_plus'].iloc[0]) ** (1/12) - 1
  future_months = 6
  last_date = time_trends['date'].max()
  future_dates = pd.date_range(start=last_date + pd.DateOffset(months=1),
                               periods=future_months, freq='MS')
  last_value = time_trends['total_17_plus'].iloc[-1]
  forecast_values = [last_value * (1 + avg_growth) ** i
                     for i in range(1, future_months + 1)]
  \<close>
  \<^verbatim>\<open>iloc\<close> raises IndexError out of range; nothing else in these lines raises.
\<close>

datatype error = IndexError

definition tail :: "nat \<Rightarrow> 'a list \<Rightarrow> 'a list" where
  "tail n xs = drop (length xs - n) xs"

definition iloc :: "'a list \<Rightarrow> int \<Rightarrow> error + 'a" where
  "iloc xs i =
     (if 0 \<le> i \<and> i < int (length xs) then Inr (xs ! nat i)
      else if i < 0 \<and> - i \<le> int (length xs) then Inr (xs ! nat (int (length xs) + i))
      else Inl IndexError)"

definition avg_growth :: "trend_row list \<Rightarrow> error + npfloat" where
  "avg_growth time_trends =
     (let last_12_months = tail 12 time_trends in
      case iloc (map tt_total_17_plus last_12_months) (- 1) of
        Inl e \<Rightarrow> Inl e
      | Inr l \<Rightarrow>
          (case iloc (map tt_total_17_plus last_12_months) 0 of
             Inl e \<Rightarrow> Inl e
           | Inr f \<Rightarrow>
               Inr (np_shift (- 1) (np_root (np_div (real_of_int l) (real_of_int f)) (1 / 12)))))"

definition future_months :: nat where
  "future_months = 6"

text \<open>The first day of the month \<open>k\<close> months after the month \<open>(y, m)\<close>.\<close>

definition add_months :: "nat \<Rightarrow> int \<times> int \<Rightarrow> int \<times> int" where
  "add_months k d =
     (let t = fst d * 12 + (snd d - 1) + int k in (t div 12, t mod 12 + 1))"

text \<open>
  The forecast for a horizon of \<open>n\<close> months, as the points the chart plots: the dates
  paired with the values. The script's horizon is \<^const>\<open>future_months\<close>. The date
  column's maximum is taken from a non-empty table only: on an empty one line 374 has
  raised already.
\<close>

definition forecast :: "trend_row list \<Rightarrow> nat \<Rightarrow> error + ((int \<times> int) \<times> npfloat) list" where
  "forecast time_trends n =
     (case avg_growth time_trends of
        Inl e \<Rightarrow> Inl e
      | Inr g \<Rightarrow>
          (case time_trends of
             [] \<Rightarrow> Inl IndexError
           | r # rs \<Rightarrow>
               (let last_date = fold max (map date rs) (date r);
                    future_dates = map (\<lambda>k. add_months k last_date) [1 ..< n + 1]
                in case iloc (map tt_total_17_plus time_trends) (- 1) of
                     Inl e \<Rightarrow> Inl e
                   | Inr last_value \<Rightarrow>
                       (let forecast_values =
                              map (\<lambda>i. np_scale (real_of_int last_value) (np_power (np_shift 1 g) i))
                                [1 ..< n + 1]
                        in Inr (zip future_dates forecast_values)))))"

definition demand_forecast :: "trend_row list \<Rightarrow> error + ((int \<times> int) \<times> npfloat) list" where
  "demand_forecast time_trends = forecast time_trends future_months"

subsection \<open>The scenario planner (lines 513 to 537)\<close>

text \<open>
  \<^verbatim>\<open>
  if target_states_scenario:
      target_data = district_profile[district_profile['state'].isin(target_states_scenario)]
      if target_age_group == "5-17 (Education)":
          baseline = target_data['total_5_17'].sum()
      elif target_age_group == "17+ (Workforce)":
          baseline = target_data['total_17_plus'].sum()
      else:
          baseline = target_data['total_5_17'].sum() + target_data['total_17_plus'].sum()
      projected = baseline * (1 + growth_rate/100)
      impact = projected - baseline
      cost_per_update = (budget_allocation * 10000000) / impact if impact > 0 else 0
      avg_value_per_update = 500
      roi = ((impact * avg_value_per_update) / (budget_allocation * 10000000)) * 100
  \<close>
  \<^verbatim>\<open>baseline\<close> is a numpy integer, \<^verbatim>\<open>growth_rate\<close> and \<^verbatim>\<open>budget_allocation\<close> are
  the integers of a slider and of a number input (the budget in crores, one crore being
  10000000). \<^verbatim>\<open>impact\<close> is a numpy float, so the division of the last line is numpy's.
\<close>

datatype age_group = Education | Workforce | Both

definition baseline :: "district_row list \<Rightarrow> age_group \<Rightarrow> int" where
  "baseline target_data target_age_group =
     (case target_age_group of
        Education \<Rightarrow> wrap64 (sum_list (map total_5_17 target_data))
      | Workforce \<Rightarrow> wrap64 (sum_list (map total_17_plus target_data))
      | Both \<Rightarrow> wrap64 (wrap64 (sum_list (map total_5_17 target_data))
                       + wrap64 (sum_list (map total_17_plus target_data))))"

record scenario_result =
  projected :: real
  impact :: real
  cost_per_update :: real
  roi :: npfloat

definition avg_value_per_update :: real where
  "avg_value_per_update = 500"

definition scenario :: "int \<Rightarrow> int \<Rightarrow> int \<Rightarrow> scenario_result" where
  "scenario bl growth_rate budget_allocation =
     (let proj = real_of_int bl * (1 + real_of_int growth_rate / 100);
          imp = proj - real_of_int bl;
          cpu = (if imp > 0 then real_of_int (budget_allocation * 10000000) / imp else 0);
          r = np_scale 100
                (np_div (imp * avg_value_per_update) (real_of_int (budget_allocation * 10000000)))
      in \<lparr>projected = proj, impact = imp, cost_per_update = cpu, roi = r\<rparr>)"

definition scenario_panel ::
  "district_row list \<Rightarrow> string list \<Rightarrow> age_group \<Rightarrow> int \<Rightarrow> int \<Rightarrow> scenario_result option" where
  "scenario_panel district_profile target_states_scenario target_age_group growth_rate budget_allocation =
     (if target_states_scenario \<noteq> [] then
        (let target_data = filter (\<lambda>r. state r \<in> set target_states_scenario) district_profile
         in Some (scenario (baseline target_data target_age_group) growth_rate budget_allocation))
      else None)"

subsection \<open>Frames as objects\<close>

text \<open>
  The script holds its frames by reference, and pandas can change a frame in place
  (\<^verbatim>\<open>yearly_growth['growth_5_17'] = ...\<close> does). To say which frames a computation
  leaves alone, the frames live in a store: an address is an index into the list of all
  frames made so far. \<^verbatim>\<open>.copy()\<close>, indexing with a boolean column, \<^verbatim>\<open>nlargest\<close> and
  \<^verbatim>\<open>groupby(...).agg(...).reset_index()\<close> each make a new frame; assigning a column
  overwrites the frame at the address it is assigned to.
\<close>

datatype frame =
    DistrictFrame "district_row list"
  | TrendFrame "trend_row list"
  | YearlyFrame yearly_frame

type_synonym store = "frame list"

definition new_frame :: "frame \<Rightarrow> store \<Rightarrow> nat \<times> store" where
  "new_frame f s = (length s, s @ [f])"

definition districts_at :: "store \<Rightarrow> nat \<Rightarrow> district_row list" where
  "districts_at s a =
     (if a < length s then (case s ! a of DistrictFrame rows \<Rightarrow> rows | _ \<Rightarrow> []) else [])"



text \<open>Lines 87 to 98 on the store; the result is the address \<^verbatim>\<open>filtered_data\<close> ends at.\<close>

definition run_filter ::
  "nat \<Rightarrow> string list \<Rightarrow> real \<times> real \<Rightarrow> bool \<Rightarrow> store \<Rightarrow> nat \<times> store" where
  "run_filter district_profile selected_states ati_range show_anomalies s =
     (case new_frame (DistrictFrame (districts_at s district_profile)) s of (fd0, s0) \<Rightarrow>
      case (if ''All States'' \<notin> set selected_states
            then new_frame
                   (DistrictFrame (filter (\<lambda>r. state r \<in> set selected_states) (districts_at s0 fd0))) s0
            else (fd0, s0)) of (fd1, s1) \<Rightarrow>
      case new_frame
             (DistrictFrame
                (filter (\<lambda>r. avg_ATI r \<ge> fst ati_range \<and> avg_ATI r \<le> snd ati_range)
                   (districts_at s1 fd1))) s1 of (fd2, s2) \<Rightarrow>
      (if show_anomalies
       then new_frame (DistrictFrame (filter (\<lambda>r. anomaly_flag r = - 1) (districts_at s2 fd2))) s2
       else (fd2, s2)))"


definition run_nlargest :: "nat \<Rightarrow> (district_row \<Rightarrow> real) \<Rightarrow> nat \<Rightarrow> store \<Rightarrow> nat \<times> store" where
  "run_nlargest n col fd s = new_frame (DistrictFrame (nlargest n col (districts_at s fd))) s"



text \<open>Lines 513 to 537: \<^verbatim>\<open>target_data\<close> is a new frame.\<close>

definition run_scenario ::
  "nat \<Rightarrow> string list \<Rightarrow> age_group \<Rightarrow> int \<Rightarrow> int \<Rightarrow> store \<Rightarrow> scenario_result option \<times> store" where
  "run_scenario district_profile target_states_scenario target_age_group growth_rate budget_allocation s =
     (if target_states_scenario \<noteq> [] then
        (case new_frame
                (DistrictFrame
                   (filter (\<lambda>r. state r \<in> set target_states_scenario)
                      (districts_at s district_profile))) s of (target_data, s1) \<Rightarrow>
           (Some (scenario (baseline (districts_at s1 target_data) target_age_group)
                    growth_rate budget_allocation), s1))
      else (None, s))"


subsection \<open>Sample tables\<close>

text \<open>Twelve months of 2024, the 17+ count going from 100 in January to 200 in December.\<close>

definition trend :: "int \<Rightarrow> int \<Rightarrow> int \<Rightarrow> int \<Rightarrow> trend_row" where
  "trend y m a b = \<lparr>year = y, month = m, tt_total_5_17 = a, tt_total_17_plus = b\<rparr>"

definition sample_trends :: "trend_row list" where
  "sample_trends =
     [trend 2024 1 40 100, trend 2024 2 41 130, trend 2024 3 42 90, trend 2024 4 43 120,
      trend 2024 5 44 140, trend 2024 6 45 150, trend 2024 7 46 160, trend 2024 8 47 170,
      trend 2024 9 48 180, trend 2024 10 49 175, trend 2024 11 50 190, trend 2024 12 51 200]"

text \<open>Three years whose 17+ totals are 100, 150 and 120.\<close>

definition sample_years :: "trend_row list" where
  "sample_years =
     [trend 2021 11 7 60, trend 2021 12 8 40, trend 2022 1 9 150,
      trend 2023 1 10 20, trend 2023 2 11 100]"

text \<open>A year with no updates followed by one with 150.\<close>

definition sample_zero_year :: "trend_row list" where
  "sample_zero_year = [trend 2021 12 0 0, trend 2022 1 5 150]"

text \<open>One year whose two 17+ counts add up to \<open>2 ^ 63\<close>, one more than int64 holds.\<close>

definition sample_wrap_year :: "trend_row list" where
  "sample_wrap_year =
     [trend 2024 1 1 4611686018427387904, trend 2024 2 2 4611686018427387904]"

definition drow :: "string \<Rightarrow> string \<Rightarrow> int \<Rightarrow> int \<Rightarrow> real \<Rightarrow> int \<Rightarrow> district_row" where
  "drow st d a b x fl =
     \<lparr>state = st, district = d, total_5_17 = a, total_17_plus = b, avg_ATI = x, anomaly_flag = fl\<rparr>"

definition sample_districts :: "district_row list" where
  "sample_districts =
     [drow ''Goa'' ''North Goa'' 10 20 1 1,
      drow ''Kerala'' ''Idukki'' 30 40 5 (- 1),
      drow ''Goa'' ''South Goa'' 50 60 3 1]"

section \<open>Properties\<close>

subsection \<open>The filter\<close>

lemma filtered_data_filter:
  "filtered_data dp sel rng anom =
     filter (\<lambda>r. (''All States'' \<in> set sel \<or> state r \<in> set sel) \<and>
                 fst rng \<le> avg_ATI r \<and> avg_ATI r \<le> snd rng \<and>
                 (anom \<longrightarrow> anomaly_flag r = - 1)) dp"
  unfolding filtered_data_def Let_def
  by (cases "''All States'' \<in> set sel"; cases anom)
    (simp_all add: conj_commute conj_left_commute cong: conj_cong)

lemma sample_all_states:
  "filtered_data sample_districts [''All States''] (1, 5) False = sample_districts"
  by (simp add: filtered_data_def sample_districts_def drow_def)

lemma sample_goa:
  "filtered_data sample_districts [''Goa''] (1, 3) False
     = [drow ''Goa'' ''North Goa'' 10 20 1 1, drow ''Goa'' ''South Goa'' 50 60 3 1]"
  by (simp add: filtered_data_def sample_districts_def drow_def)

lemma sample_none: "filtered_data sample_districts [''Goa''] (4, 5) False = []"
  by (simp add: filtered_data_def sample_districts_def drow_def)

lemma sample_no_state:
  "filtered_data sample_districts [] (1, 5) False = []"
  by (simp add: filtered_data_def sample_districts_def drow_def)

lemma sample_full_range:
  "list_all (\<lambda>r. 1 \<le> avg_ATI r \<and> avg_ATI r \<le> 5) sample_districts"
  by (simp add: sample_districts_def drow_def)

text \<open>
  C7, as the code has it. Whatever the selected states, the inclusive ATI range
  \<open>[lo, hi]\<close> and the anomaly checkbox, the filter returns the rows of the input that
  satisfy every predicate (the state is selected, or "All States" is;
  \<open>lo \<le> avg_ATI \<le> hi\<close>, both ends included; the flag is -1 when anomalies only are
  asked for), as a subsequence of the input, so in their original order. An empty
  result is a result. The state set is unrestricted only when it holds the sentinel
  "All States": then, with a range that covers every row's ATI and the checkbox off,
  the input comes back unchanged. An empty state set is not unrestricted: it keeps no
  row.
\<close>

theorem filter_subsequence:
  "filtered_data dp sel (lo, hi) anom =
     filter (\<lambda>r. (''All States'' \<in> set sel \<or> state r \<in> set sel) \<and>
                 lo \<le> avg_ATI r \<and> avg_ATI r \<le> hi \<and>
                 (anom \<longrightarrow> anomaly_flag r = - 1)) dp
   \<and> subseq (filtered_data dp sel (lo, hi) anom) dp
   \<and> (''All States'' \<in> set sel \<and> (\<forall>r \<in> set dp. lo \<le> avg_ATI r \<and> avg_ATI r \<le> hi) \<and> \<not> anom
        \<longrightarrow> filtered_data dp sel (lo, hi) anom = dp)
   \<and> filtered_data dp [] (lo, hi) anom = []"
proof (intro conjI impI)
  show c: "filtered_data dp sel (lo, hi) anom =
     filter (\<lambda>r. (''All States'' \<in> set sel \<or> state r \<in> set sel) \<and>
                 lo \<le> avg_ATI r \<and> avg_ATI r \<le> hi \<and>
                 (anom \<longrightarrow> anomaly_flag r = - 1)) dp"
    by (simp add: filtered_data_filter)
  show "subseq (filtered_data dp sel (lo, hi) anom) dp"
    unfolding c by (rule subseq_filter_left)
  show "filtered_data dp [] (lo, hi) anom = []"
    by (simp add: filtered_data_def)
  assume a: "''All States'' \<in> set sel \<and> (\<forall>r \<in> set dp. lo \<le> avg_ATI r \<and> avg_ATI r \<le> hi) \<and> \<not> anom"
  have "filter (\<lambda>r. (''All States'' \<in> set sel \<or> state r \<in> set sel) \<and>
                 lo \<le> avg_ATI r \<and> avg_ATI r \<le> hi \<and>
                 (anom \<longrightarrow> anomaly_flag r = - 1)) dp = dp"
    by (rule filter_True) (use a in blast)
  then show "filtered_data dp sel (lo, hi) anom = dp"
    unfolding c .
qed

theorem filter_subsequence_witness:
  "filtered_data sample_districts [''All States''] (1, 5) False = sample_districts
   \<and> subseq [drow ''Goa'' ''North Goa'' 10 20 1 1, drow ''Goa'' ''South Goa'' 50 60 3 1]
        sample_districts
   \<and> filtered_data sample_districts [''Goa''] (4, 5) False = []
   \<and> filtered_data sample_districts [] (1, 5) False = []"
proof -
  have h: "''All States'' \<in> set [''All States''] \<and>
        (\<forall>r \<in> set sample_districts. 1 \<le> avg_ATI r \<and> avg_ATI r \<le> 5) \<and> \<not> False"
    by (simp add: sample_districts_def drow_def)
  from filter_subsequence [of sample_districts "[''All States'']" 1 5 False] h
  have "filtered_data sample_districts [''All States''] (1, 5) False = sample_districts"
    by blast
  moreover from filter_subsequence [of sample_districts "[''Goa'']" 1 5 False]
  have "filtered_data sample_districts [] (1, 5) False = []"
    by blast
  moreover from filter_subsequence [of sample_districts "[''Goa'']" 1 3 False]
  have "subseq (filtered_data sample_districts [''Goa''] (1, 3) False) sample_districts"
    by blast
  then have "subseq [drow ''Goa'' ''North Goa'' 10 20 1 1, drow ''Goa'' ''South Goa'' 50 60 3 1]
        sample_districts"
    by (simp only: sample_goa)
  ultimately show ?thesis using sample_none by blast
qed

theorem empty_state_set_counterexample:
  "list_all (\<lambda>r. 1 \<le> avg_ATI r \<and> avg_ATI r \<le> 5) sample_districts
   \<and> filtered_data sample_districts [] (1, 5) False = []
   \<and> filtered_data sample_districts [] (1, 5) False \<noteq> sample_districts"
  using sample_full_range sample_no_state by (simp add: sample_districts_def)

subsection \<open>The anomaly flag\<close>

lemma sample_anomalies:
  "filtered_data sample_districts [''All States''] (1, 5) True
     = [drow ''Kerala'' ''Idukki'' 30 40 5 (- 1)]"
  by (simp add: filtered_data_def sample_districts_def drow_def)

lemma anomaly_count_length:
  "anomaly_count fd = int (length (filter (\<lambda>r. anomaly_flag r = - 1) fd))"
  unfolding anomaly_count_def by (induction fd) auto

text \<open>
  C10. An anomaly is the flag value -1. With the checkbox on, the filter keeps exactly
  the rows, among those the other predicates keep, whose flag is -1; the anomaly count
  is the number of rows whose flag is -1. A row with any other flag (1, say) is never
  kept by the anomalies-only filter and adds nothing to the count.
\<close>

theorem anomaly_is_minus_one:
  "filtered_data dp sel rng True
     = filter (\<lambda>r. anomaly_flag r = - 1) (filtered_data dp sel rng False)
   \<and> anomaly_count fd = int (length (filter (\<lambda>r. anomaly_flag r = - 1) fd))
   \<and> (anomaly_flag r \<noteq> - 1 \<longrightarrow>
        r \<notin> set (filtered_data dp sel rng True) \<and> anomaly_count (r # fd) = anomaly_count fd)"
proof (intro conjI impI)
  show a: "filtered_data dp sel rng True
      = filter (\<lambda>r. anomaly_flag r = - 1) (filtered_data dp sel rng False)"
    by (simp add: filtered_data_def Let_def)
  show "anomaly_count fd = int (length (filter (\<lambda>r. anomaly_flag r = - 1) fd))"
    by (rule anomaly_count_length)
  assume n: "anomaly_flag r \<noteq> - 1"
  show "r \<notin> set (filtered_data dp sel rng True)"
    unfolding a using n by simp
  show "anomaly_count (r # fd) = anomaly_count fd"
    using n by (simp add: anomaly_count_def)
qed

theorem anomaly_is_minus_one_witness:
  "filtered_data sample_districts [''All States''] (1, 5) True
     = filter (\<lambda>r. anomaly_flag r = - 1) sample_districts
   \<and> anomaly_count sample_districts = 1
   \<and> drow ''Goa'' ''North Goa'' 10 20 1 1
        \<notin> set (filtered_data sample_districts [''All States''] (1, 5) True)
   \<and> anomaly_count [drow ''Goa'' ''North Goa'' 10 20 1 1] = 0"
proof -
  have n: "anomaly_flag (drow ''Goa'' ''North Goa'' 10 20 1 1) \<noteq> - 1"
    by (simp add: drow_def)
  have e: "anomaly_count [] = 0" by (simp add: anomaly_count_def)
  note t = anomaly_is_minus_one [of sample_districts "[''All States'']" "(1, 5)" "[]"
      "drow ''Goa'' ''North Goa'' 10 20 1 1"]
  from t n e
  have "drow ''Goa'' ''North Goa'' 10 20 1 1
          \<notin> set (filtered_data sample_districts [''All States''] (1, 5) True)"
    and "anomaly_count [drow ''Goa'' ''North Goa'' 10 20 1 1] = 0"
    by simp_all
  moreover from t
  have "filtered_data sample_districts [''All States''] (1, 5) True
     = filter (\<lambda>r. anomaly_flag r = - 1) sample_districts"
    by (simp only: sample_all_states)
  moreover have "anomaly_count sample_districts = 1"
    by (simp add: anomaly_count_def sample_districts_def drow_def)
  ultimately show ?thesis by blast
qed

subsection \<open>The scenario planner\<close>

lemma scenario_sample:
  "scenario 1000 15 500 =
     \<lparr>projected = 1150, impact = 150, cost_per_update = 5000000000 / 150,
      roi = Fin ((150 * 500 / 5000000000) * 100)\<rparr>"
  by (simp add: scenario_def Let_def avg_value_per_update_def np_div_def)

lemma scenario_zero_budget:
  "scenario 1000 15 0 = \<lparr>projected = 1150, impact = 150, cost_per_update = 0, roi = PInf\<rparr>"
  by (simp add: scenario_def Let_def avg_value_per_update_def np_div_def)

lemma roi_nonzero_budget:
  "bu \<noteq> 0 \<Longrightarrow> roi (scenario bl gr bu) =
      Fin (impact (scenario bl gr bu) * avg_value_per_update / real_of_int (bu * 10000000) * 100)"
  by (simp add: scenario_def Let_def np_div_def)

lemma roi_zero_budget:
  "roi (scenario bl gr 0) =
      (if impact (scenario bl gr 0) > 0 then PInf
       else if impact (scenario bl gr 0) < 0 then NInf else NaN)"
  by (simp add: scenario_def Let_def np_div_def avg_value_per_update_def
      zero_less_mult_iff mult_less_0_iff)

text \<open>
  C5. For every baseline, growth rate and budget (the budget in crores, so the budget in
  currency is \<open>bu * 10000000\<close>): \<open>projected = baseline * (1 + growth_rate / 100)\<close>,
  \<open>impact = projected - baseline\<close>, and the cost per update is the budget divided by the
  impact when the impact is positive and 0 otherwise. With baseline 1000, growth 15
  and a budget of 5000000000 (500 crores): projected 1150, impact 150, cost per update
  5000000000 / 150 and ROI (150 * 500 / 5000000000) * 100.
\<close>

theorem scenario_formulas:
  "projected (scenario bl gr bu) = real_of_int bl * (1 + real_of_int gr / 100)
   \<and> impact (scenario bl gr bu) = projected (scenario bl gr bu) - real_of_int bl
   \<and> cost_per_update (scenario bl gr bu) =
        (if impact (scenario bl gr bu) > 0
         then real_of_int (bu * 10000000) / impact (scenario bl gr bu) else 0)
   \<and> scenario 1000 15 500 =
       \<lparr>projected = 1150, impact = 150, cost_per_update = 5000000000 / 150,
        roi = Fin ((150 * 500 / 5000000000) * 100)\<rparr>"
proof (intro conjI)
  show "projected (scenario bl gr bu) = real_of_int bl * (1 + real_of_int gr / 100)"
    by (simp add: scenario_def Let_def)
  show "impact (scenario bl gr bu) = projected (scenario bl gr bu) - real_of_int bl"
    by (simp add: scenario_def Let_def)
  show "cost_per_update (scenario bl gr bu) =
        (if impact (scenario bl gr bu) > 0
         then real_of_int (bu * 10000000) / impact (scenario bl gr bu) else 0)"
    by (simp add: scenario_def Let_def)
  show "scenario 1000 15 500 =
       \<lparr>projected = 1150, impact = 150, cost_per_update = 5000000000 / 150,
        roi = Fin ((150 * 500 / 5000000000) * 100)\<rparr>"
    by (rule scenario_sample)
qed

text \<open>
  C3, as the code has it. The ROI line never raises. For a non-zero budget the ROI is
  \<open>(impact * 500 / (bu * 10000000)) * 100\<close>. For a zero budget numpy divides by zero
  and the ROI is not a finite number: \<open>inf\<close> when the impact is positive, \<open>-inf\<close> when it
  is negative, \<open>nan\<close> when it is zero.
\<close>

theorem roi_never_raises:
  "(bu \<noteq> 0 \<longrightarrow> roi (scenario bl gr bu) =
      Fin (impact (scenario bl gr bu) * avg_value_per_update / real_of_int (bu * 10000000) * 100))
   \<and> roi (scenario bl gr 0) =
      (if impact (scenario bl gr 0) > 0 then PInf
       else if impact (scenario bl gr 0) < 0 then NInf else NaN)
   \<and> \<not> is_finite (roi (scenario bl gr 0))"
  using roi_nonzero_budget [of bu bl gr] roi_zero_budget [of bl gr] by simp

theorem roi_never_raises_witness:
  "roi (scenario 1000 15 500) = Fin (3 / 2000) \<and> roi (scenario 1000 15 0) = PInf
   \<and> roi (scenario 1000 0 0) = NaN \<and> roi (scenario 1000 (- 20) 0) = NInf"
proof -
  have i: "impact (scenario 1000 15 500) = 150" "impact (scenario 1000 15 0) = 150"
     "impact (scenario 1000 0 0) = 0" "impact (scenario 1000 (- 20) 0) = - 200"
    by (simp_all add: scenario_def Let_def)
  show ?thesis
    using roi_never_raises [of 500 1000 15] roi_never_raises [of 0 1000 0]
      roi_never_raises [of 0 1000 "- 20"]
    by (simp add: i avg_value_per_update_def)
qed

theorem roi_zero_budget_counterexample:
  "scenario 1000 15 0 = \<lparr>projected = 1150, impact = 150, cost_per_update = 0, roi = PInf\<rparr>
   \<and> scenario_panel sample_districts [''Goa''] Workforce 15 0
       = Some \<lparr>projected = 92, impact = 12, cost_per_update = 0, roi = PInf\<rparr>"
  by (simp add: scenario_zero_budget)
    (simp add: scenario_panel_def baseline_def wrap64_def sample_districts_def drow_def
      scenario_def Let_def avg_value_per_update_def np_div_def)

subsection \<open>float64 rounding and int64 sums\<close>

lemma wrap64_id: "- (2 ^ 63) \<le> n \<Longrightarrow> n < 2 ^ 63 \<Longrightarrow> wrap64 n = n"
  by (simp add: wrap64_def)

lemma pow2_powr: "pow2 k = 2 powr (real_of_int k)"
  by (simp add: pow2_def powr_real_of_int inverse_eq_divide)

lemma pow2_pos: "0 < pow2 k"
  by (simp add: pow2_def)

lemma pow2_mono: "k \<le> l \<Longrightarrow> pow2 k \<le> pow2 l"
  by (simp add: pow2_powr)

lemma pow2_less_cancel: "pow2 k < pow2 l \<Longrightarrow> k < l"
  by (simp add: pow2_powr)

lemma ilog2_eqI:
  assumes "pow2 e \<le> \<bar>x\<bar>" and "\<bar>x\<bar> < pow2 (e + 1)"
  shows "ilog2 x = e"
proof -
  have "0 < \<bar>x\<bar>" using assms(1) pow2_pos [of e] by linarith
  then show ?thesis
    unfolding ilog2_def using assms
    by (simp add: floor_log_eq_powr_iff pow2_powr)
qed

lemma ilog2_bounds:
  assumes "x \<noteq> 0"
  shows "pow2 (ilog2 x) \<le> \<bar>x\<bar>" and "\<bar>x\<bar> < pow2 (ilog2 x + 1)"
proof -
  have p: "0 < \<bar>x\<bar>" using assms by simp
  have "\<lfloor>log 2 \<bar>x\<bar>\<rfloor> = ilog2 x" by (simp add: ilog2_def)
  then have "2 powr (real_of_int (ilog2 x)) \<le> \<bar>x\<bar>
      \<and> \<bar>x\<bar> < 2 powr (real_of_int (ilog2 x + 1))"
    using p by (simp add: floor_log_eq_powr_iff)
  then show "pow2 (ilog2 x) \<le> \<bar>x\<bar>" and "\<bar>x\<bar> < pow2 (ilog2 x + 1)"
    by (simp_all add: pow2_powr)
qed

text \<open>Rounding a number whose binary exponent is known.\<close>

lemma round64_at:
  assumes "pow2 e \<le> \<bar>x\<bar>" and "\<bar>x\<bar> < pow2 (e + 1)" and "u = max (e - 52) (- 1074)"
  shows "round64 x = real_of_int (rne (x / pow2 u)) * pow2 u"
proof -
  have "x \<noteq> 0" using assms(1) pow2_pos [of e] by auto
  then show ?thesis
    by (simp add: round64_def ilog2_eqI [OF assms(1,2)] assms(3) Let_def)
qed

lemma rne_ge_floor: "\<lfloor>q\<rfloor> \<le> rne q"
  by (simp add: rne_def Let_def)

lemma rne_le_ceiling: "rne q \<le> \<lceil>q\<rceil>"
proof (cases "q = real_of_int \<lfloor>q\<rfloor>")
  case True
  then have "rne q = \<lfloor>q\<rfloor>" by (simp add: rne_def Let_def)
  then show ?thesis by (simp add: floor_le_ceiling)
next
  case False
  then have "\<lceil>q\<rceil> = \<lfloor>q\<rfloor> + 1" by (simp add: ceiling_altdef)
  then show ?thesis by (simp add: rne_def Let_def)
qed

text \<open>Rounding keeps the sign of a number of magnitude 1 or more.\<close>

lemma round64_sign:
  assumes "1 \<le> \<bar>x\<bar>"
  shows "(0 < x \<longrightarrow> 0 < round64 x) \<and> (x < 0 \<longrightarrow> round64 x < 0)"
proof -
  have nz: "x \<noteq> 0" using assms by auto
  define u where "u = max (ilog2 x - 52) (- 1074)"
  have "pow2 0 \<le> \<bar>x\<bar>" using assms by (simp add: pow2_def)
  also have "\<bar>x\<bar> < pow2 (ilog2 x + 1)" using nz by (rule ilog2_bounds)
  finally have "0 < ilog2 x + 1" by (rule pow2_less_cancel)
  then have "u \<le> ilog2 x" by (simp add: u_def)
  then have "pow2 u \<le> pow2 (ilog2 x)" by (rule pow2_mono)
  also have "\<dots> \<le> \<bar>x\<bar>" using nz by (rule ilog2_bounds)
  finally have le: "pow2 u \<le> \<bar>x\<bar>" .
  have r: "round64 x = real_of_int (rne (x / pow2 u)) * pow2 u"
    using nz by (simp add: round64_def u_def Let_def)
  show ?thesis
  proof (intro conjI impI)
    assume "0 < x"
    with le have "1 \<le> x / pow2 u" by (simp add: pow2_pos le_divide_eq)
    then have "1 \<le> \<lfloor>x / pow2 u\<rfloor>" by simp
    with rne_ge_floor [of "x / pow2 u"] have "0 < rne (x / pow2 u)" by linarith
    then show "0 < round64 x" unfolding r by (simp add: pow2_pos)
  next
    assume "x < 0"
    with le have "x / pow2 u \<le> - 1" by (simp add: pow2_pos divide_le_eq)
    then have "\<lceil>x / pow2 u\<rceil> \<le> - 1" by (simp add: ceiling_le_iff)
    with rne_le_ceiling [of "x / pow2 u"] have "rne (x / pow2 u) < 0" by linarith
    then show "round64 x < 0" unfolding r by (simp add: pow2_pos mult_neg_pos)
  qed
qed

lemma f64_of_int_0: "f64_of_int 0 = 0"
  by (simp add: f64_of_int_def round64_def)

lemma f64_of_int_pos: "0 < n \<Longrightarrow> 0 < f64_of_int n"
  using round64_sign [of "real_of_int n"] by (simp add: f64_of_int_def)

lemma f64_of_int_neg: "n < 0 \<Longrightarrow> f64_of_int n < 0"
  using round64_sign [of "real_of_int n"] by (simp add: f64_of_int_def)

lemma f64_of_int_eq_0: "f64_of_int n = 0 \<longleftrightarrow> n = 0"
  using f64_of_int_pos [of n] f64_of_int_neg [of n] f64_of_int_0
  by (cases "n = 0") (auto simp: neq_iff)

lemma f64_of_int_100: "f64_of_int 100 = 100"
  by (simp add: f64_of_int_def round64_at [where e = 6 and u = "- 46"] pow2_def rne_def)

lemma f64_of_int_150: "f64_of_int 150 = 150"
  by (simp add: f64_of_int_def round64_at [where e = 7 and u = "- 45"] pow2_def rne_def)

lemma f64_of_int_120: "f64_of_int 120 = 120"
  by (simp add: f64_of_int_def round64_at [where e = 6 and u = "- 46"] pow2_def rne_def)

text \<open>\<^verbatim>\<open>(150 / 100 - 1) * 100\<close> is 50 in float64: no step rounds.\<close>

lemma growth_150_100: "f64_scale 100 (f64_shift (- 1) (f64_div 150 100)) = Fin 50"
proof -
  have "f64_div 150 100 = Fin (3 / 2)"
    by (simp add: f64_div_def fl64_def round64_at [where e = 0 and u = "- 52"] pow2_def rne_def)
  moreover have "f64_shift (- 1) (Fin (3 / 2)) = Fin (1 / 2)"
    by (simp add: fl64_def round64_at [where e = "- 1" and u = "- 53"] pow2_def rne_def)
  moreover have "f64_scale 100 (Fin (1 / 2)) = Fin 50"
    by (simp add: fl64_def round64_at [where e = 5 and u = "- 47"] pow2_def rne_def)
  ultimately show ?thesis by simp
qed

text \<open>
  \<^verbatim>\<open>(120 / 150 - 1) * 100\<close> in float64: the quotient rounds up to
  \<open>7205759403792794 / 2 ^ 53\<close>, the difference is exact, and the product rounds to
  \<open>- 5629499534213119 / 2 ^ 48\<close>, which Python prints as -19.999999999999996.
\<close>

lemma growth_120_150:
  "f64_scale 100 (f64_shift (- 1) (f64_div 120 150))
     = Fin (- (5629499534213119 / 281474976710656))"
proof -
  have "f64_div 120 150 = Fin (7205759403792794 / 9007199254740992)"
    by (simp add: f64_div_def fl64_def round64_at [where e = "- 1" and u = "- 53"]
        pow2_def rne_def)
  moreover have "f64_shift (- 1) (Fin (7205759403792794 / 9007199254740992))
      = Fin (- (1801439850948198 / 9007199254740992))"
    by (simp add: fl64_def round64_at [where e = "- 3" and u = "- 55"] pow2_def rne_def)
  moreover have "f64_scale 100 (Fin (- (1801439850948198 / 9007199254740992)))
      = Fin (- (5629499534213119 / 281474976710656))"
    by (simp add: fl64_def round64_at [where e = 4 and u = "- 48"] pow2_def rne_def)
  ultimately show ?thesis by simp
qed

subsection \<open>Year-over-year growth\<close>

lemma length_pct_change: "length (pct_change xs) = length xs"
  by (cases xs) simp_all

lemma pct_change_0: "xs \<noteq> [] \<Longrightarrow> pct_change xs ! 0 = NaN"
  by (cases xs) simp_all

lemma pct_change_Suc:
  "Suc i < length xs \<Longrightarrow> pct_change xs ! Suc i = f64_shift (- 1) (f64_div (xs ! Suc i) (xs ! i))"
  by (cases xs) simp_all

lemma length_growth_pct: "length (growth_pct ts) = length ts"
  by (simp add: growth_pct_def length_pct_change)

lemma growth_pct_0: "ts \<noteq> [] \<Longrightarrow> growth_pct ts ! 0 = NaN"
  by (simp add: growth_pct_def length_pct_change pct_change_0)

lemma growth_pct_Suc:
  "Suc i < length ts \<Longrightarrow>
     growth_pct ts ! Suc i =
       f64_scale 100 (f64_shift (- 1) (f64_div (f64_of_int (ts ! Suc i)) (f64_of_int (ts ! i))))"
  by (simp add: growth_pct_def length_pct_change pct_change_Suc)

lemma growth_pct_nonzero:
  assumes "Suc i < length ts" "ts ! i \<noteq> 0"
  shows "growth_pct ts ! Suc i =
       f64_scale 100
         (f64_shift (- 1) (fl64 (f64_of_int (ts ! Suc i) / f64_of_int (ts ! i))))"
  using assms by (simp add: growth_pct_Suc f64_div_def f64_of_int_eq_0)

lemma growth_pct_zero:
  assumes "Suc i < length ts" "ts ! i = 0"
  shows "growth_pct ts ! Suc i =
       (if ts ! Suc i > 0 then PInf else if ts ! Suc i < 0 then NInf else NaN)"
proof -
  consider "0 < ts ! Suc i" | "ts ! Suc i < 0" | "ts ! Suc i = 0" by linarith
  then show ?thesis
  proof cases
    case 1
    with f64_of_int_pos [OF 1] show ?thesis
      using assms by (simp add: growth_pct_Suc f64_div_def f64_of_int_0)
  next
    case 2
    with f64_of_int_neg [OF 2] show ?thesis
      using assms by (simp add: growth_pct_Suc f64_div_def f64_of_int_0)
  next
    case 3
    then show ?thesis
      using assms by (simp add: growth_pct_Suc f64_div_def f64_of_int_0)
  qed
qed

lemma yearly_growth_fields:
  "yf_year (yearly_growth tt) = group_keys tt"
  "yf_total_5_17 (yearly_growth tt) = map (group_sum tt_total_5_17 tt) (group_keys tt)"
  "yf_total_17_plus (yearly_growth tt) = map (group_sum tt_total_17_plus tt) (group_keys tt)"
  "yf_growth_5_17 (yearly_growth tt)
     = Some (growth_pct (map (group_sum tt_total_5_17 tt) (group_keys tt)))"
  "yf_growth_17_plus (yearly_growth tt)
     = Some (growth_pct (map (group_sum tt_total_17_plus tt) (group_keys tt)))"
  by (simp_all add: yearly_growth_def assign_growth_17_plus_def assign_growth_5_17_def
      groupby_year_sum_def)

lemma group_keys_props:
  "sorted (group_keys tt)" "distinct (group_keys tt)" "set (group_keys tt) = year ` set tt"
  by (simp_all add: group_keys_def)

lemma sample_years_totals:
  "yf_year (yearly_growth sample_years) = [2021, 2022, 2023]"
  "yf_total_5_17 (yearly_growth sample_years) = [15, 9, 21]"
  "yf_total_17_plus (yearly_growth sample_years) = [100, 150, 120]"
  by (simp_all add: yearly_growth_fields group_keys_def group_sum_def wrap64_def
      sample_years_def trend_def)

lemma growth_pct_sample:
  "growth_pct [100, 150, 120] = [NaN, Fin 50, Fin (- (5629499534213119 / 281474976710656))]"
  by (simp add: growth_pct_def f64_of_int_100 f64_of_int_150 f64_of_int_120
      growth_150_100 growth_120_150)

lemma sample_years_growth:
  "yf_growth_17_plus (yearly_growth sample_years)
     = Some [NaN, Fin 50, Fin (- (5629499534213119 / 281474976710656))]"
proof -
  have "map (group_sum tt_total_17_plus sample_years) (group_keys sample_years)
      = [100, 150, 120]"
    using sample_years_totals(3) by (simp only: yearly_growth_fields)
  then show ?thesis
    by (simp only: yearly_growth_fields growth_pct_sample)
qed

lemma sample_zero_year_totals:
  "yf_year (yearly_growth sample_zero_year) = [2021, 2022]"
  "yf_total_5_17 (yearly_growth sample_zero_year) = [0, 5]"
  "yf_total_17_plus (yearly_growth sample_zero_year) = [0, 150]"
  by (simp_all add: yearly_growth_fields group_keys_def group_sum_def wrap64_def
      sample_zero_year_def trend_def)

lemma growth_pct_zero_start:
  "0 < n \<Longrightarrow> growth_pct [0, n] = [NaN, PInf]"
  using f64_of_int_pos [of n]
  by (simp add: growth_pct_def f64_div_def f64_of_int_0)

lemma sample_zero_year_growth:
  "yf_growth_5_17 (yearly_growth sample_zero_year) = Some [NaN, PInf]"
  "yf_growth_17_plus (yearly_growth sample_zero_year) = Some [NaN, PInf]"
proof -
  have t: "map (group_sum tt_total_5_17 sample_zero_year) (group_keys sample_zero_year) = [0, 5]"
    "map (group_sum tt_total_17_plus sample_zero_year) (group_keys sample_zero_year) = [0, 150]"
    using sample_zero_year_totals(2,3) by (simp_all only: yearly_growth_fields)
  show "yf_growth_5_17 (yearly_growth sample_zero_year) = Some [NaN, PInf]"
    by (simp add: yearly_growth_fields t growth_pct_zero_start)
  show "yf_growth_17_plus (yearly_growth sample_zero_year) = Some [NaN, PInf]"
    by (simp add: yearly_growth_fields t growth_pct_zero_start)
qed

lemma sample_wrap_year_total:
  "yf_total_17_plus (yearly_growth sample_wrap_year) = [- 9223372036854775808]"
  by (simp add: yearly_growth_fields group_keys_def group_sum_def wrap64_def
      sample_wrap_year_def trend_def)

text \<open>
  C6, as the code has it. For every monthly series, the yearly frame has one row per
  year of the series, the years ascending; each age-group total of a year is the int64
  sum of that field over the year's rows, which wraps when the true sum leaves the
  int64 range. Each growth column has one entry per year; the first is missing
  (\<open>nan\<close>), not zero, and the entry of every later year whose preceding total is not
  zero is the float64 value of \<open>(curr / prev - 1) * 100\<close>, the division, the
  subtraction and the multiplication each rounded. That is \<open>(curr - prev) / prev * 100\<close>
  up to rounding only: on yearly totals 100, 150, 120 the growth is missing, 50 and
  \<open>- 5629499534213119 / 2 ^ 48\<close> (printed -19.999999999999996), not -20.
\<close>

theorem yearly_growth_pct:
  "f = yearly_growth tt \<Longrightarrow>
   sorted (yf_year f) \<and> distinct (yf_year f) \<and> set (yf_year f) = year ` set tt
   \<and> yf_total_5_17 f
        = map (\<lambda>y. wrap64 (sum_list (map tt_total_5_17 (filter (\<lambda>r. year r = y) tt))))
            (yf_year f)
   \<and> yf_total_17_plus f
        = map (\<lambda>y. wrap64 (sum_list (map tt_total_17_plus (filter (\<lambda>r. year r = y) tt))))
            (yf_year f)
   \<and> (\<exists>g5 g17. yf_growth_5_17 f = Some g5 \<and> yf_growth_17_plus f = Some g17
        \<and> length g5 = length (yf_year f) \<and> length g17 = length (yf_year f)
        \<and> (yf_year f \<noteq> [] \<longrightarrow> g5 ! 0 = NaN \<and> g17 ! 0 = NaN)
        \<and> (\<forall>i. Suc i < length (yf_year f) \<longrightarrow>
              (yf_total_5_17 f ! i \<noteq> 0 \<longrightarrow>
                 g5 ! Suc i =
                   f64_scale 100
                     (f64_shift (- 1)
                        (fl64 (f64_of_int (yf_total_5_17 f ! Suc i)
                               / f64_of_int (yf_total_5_17 f ! i)))))
            \<and> (yf_total_17_plus f ! i \<noteq> 0 \<longrightarrow>
                 g17 ! Suc i =
                   f64_scale 100
                     (f64_shift (- 1)
                        (fl64 (f64_of_int (yf_total_17_plus f ! Suc i)
                               / f64_of_int (yf_total_17_plus f ! i)))))))"
proof -
  assume f: "f = yearly_growth tt"
  let ?t5 = "map (group_sum tt_total_5_17 tt) (group_keys tt)"
  let ?t17 = "map (group_sum tt_total_17_plus tt) (group_keys tt)"
  have keys: "sorted (yf_year f) \<and> distinct (yf_year f) \<and> set (yf_year f) = year ` set tt"
    unfolding f yearly_growth_fields using group_keys_props [of tt] by blast
  have t5: "yf_total_5_17 f
        = map (\<lambda>y. wrap64 (sum_list (map tt_total_5_17 (filter (\<lambda>r. year r = y) tt))))
            (yf_year f)"
    unfolding f yearly_growth_fields by (simp add: group_sum_def)
  have t17: "yf_total_17_plus f
        = map (\<lambda>y. wrap64 (sum_list (map tt_total_17_plus (filter (\<lambda>r. year r = y) tt))))
            (yf_year f)"
    unfolding f yearly_growth_fields by (simp add: group_sum_def)
  have g: "yf_growth_5_17 f = Some (growth_pct ?t5)" "yf_growth_17_plus f = Some (growth_pct ?t17)"
    unfolding f by (rule yearly_growth_fields)+
  have len: "length (growth_pct ?t5) = length (yf_year f)"
      "length (growth_pct ?t17) = length (yf_year f)"
    unfolding f yearly_growth_fields by (simp_all add: length_growth_pct)
  have first: "yf_year f \<noteq> [] \<longrightarrow> growth_pct ?t5 ! 0 = NaN \<and> growth_pct ?t17 ! 0 = NaN"
    unfolding f yearly_growth_fields by (simp add: growth_pct_0)
  have later: "\<forall>i. Suc i < length (yf_year f) \<longrightarrow>
              (yf_total_5_17 f ! i \<noteq> 0 \<longrightarrow>
                 growth_pct ?t5 ! Suc i =
                   f64_scale 100
                     (f64_shift (- 1)
                        (fl64 (f64_of_int (yf_total_5_17 f ! Suc i)
                               / f64_of_int (yf_total_5_17 f ! i)))))
            \<and> (yf_total_17_plus f ! i \<noteq> 0 \<longrightarrow>
                 growth_pct ?t17 ! Suc i =
                   f64_scale 100
                     (f64_shift (- 1)
                        (fl64 (f64_of_int (yf_total_17_plus f ! Suc i)
                               / f64_of_int (yf_total_17_plus f ! i)))))"
  proof (intro allI impI conjI)
    fix i assume i: "Suc i < length (yf_year f)"
    then have i5: "Suc i < length ?t5" and i17: "Suc i < length ?t17"
      unfolding f yearly_growth_fields by simp_all
    { assume "yf_total_5_17 f ! i \<noteq> 0"
      then have "?t5 ! i \<noteq> 0" unfolding f yearly_growth_fields .
      from growth_pct_nonzero [OF i5 this]
      show "growth_pct ?t5 ! Suc i =
                   f64_scale 100
                     (f64_shift (- 1)
                        (fl64 (f64_of_int (yf_total_5_17 f ! Suc i)
                               / f64_of_int (yf_total_5_17 f ! i))))"
        unfolding f yearly_growth_fields . }
    { assume "yf_total_17_plus f ! i \<noteq> 0"
      then have "?t17 ! i \<noteq> 0" unfolding f yearly_growth_fields .
      from growth_pct_nonzero [OF i17 this]
      show "growth_pct ?t17 ! Suc i =
                   f64_scale 100
                     (f64_shift (- 1)
                        (fl64 (f64_of_int (yf_total_17_plus f ! Suc i)
                               / f64_of_int (yf_total_17_plus f ! i))))"
        unfolding f yearly_growth_fields . }
  qed
  from keys t5 t17 g len first later show ?thesis by blast
qed

theorem yearly_growth_pct_witness:
  "yf_year (yearly_growth sample_years) = [2021, 2022, 2023]
   \<and> yf_total_17_plus (yearly_growth sample_years) = [100, 150, 120]
   \<and> yf_total_17_plus (yearly_growth sample_years) ! 0 \<noteq> 0
   \<and> yf_total_17_plus (yearly_growth sample_years) ! 1 \<noteq> 0
   \<and> (\<exists>g. yf_growth_17_plus (yearly_growth sample_years) = Some g
          \<and> length g = 3 \<and> g ! 0 = NaN \<and> g ! 1 = Fin 50
          \<and> g ! 2 = Fin (- (5629499534213119 / 281474976710656)))"
proof -
  note s = sample_years_totals
  from yearly_growth_pct [OF refl, of sample_years]
  obtain g5 g17 where g: "yf_growth_17_plus (yearly_growth sample_years) = Some g17"
    and n: "length g17 = length (yf_year (yearly_growth sample_years))"
    and z: "yf_year (yearly_growth sample_years) \<noteq> [] \<longrightarrow> g5 ! 0 = NaN \<and> g17 ! 0 = NaN"
    and l: "\<forall>i. Suc i < length (yf_year (yearly_growth sample_years)) \<longrightarrow>
              (yf_total_5_17 (yearly_growth sample_years) ! i \<noteq> 0 \<longrightarrow>
                 g5 ! Suc i =
                   f64_scale 100
                     (f64_shift (- 1)
                        (fl64 (f64_of_int (yf_total_5_17 (yearly_growth sample_years) ! Suc i)
                               / f64_of_int (yf_total_5_17 (yearly_growth sample_years) ! i)))))
            \<and> (yf_total_17_plus (yearly_growth sample_years) ! i \<noteq> 0 \<longrightarrow>
                 g17 ! Suc i =
                   f64_scale 100
                     (f64_shift (- 1)
                        (fl64 (f64_of_int (yf_total_17_plus (yearly_growth sample_years) ! Suc i)
                               / f64_of_int (yf_total_17_plus (yearly_growth sample_years) ! i)))))"
    by blast
  from n have n': "length g17 = 3" by (simp add: s)
  from z have z': "g17 ! 0 = NaN" by (simp add: s)
  from l [rule_format, of 0]
  have "g17 ! 1 = f64_scale 100 (f64_shift (- 1) (f64_div 150 100))"
    by (simp add: s f64_of_int_100 f64_of_int_150 f64_div_def)
  then have a: "g17 ! 1 = Fin 50"
    by (simp only: growth_150_100)
  from l [rule_format, of 1]
  have "g17 ! 2 = f64_scale 100 (f64_shift (- 1) (f64_div 120 150))"
    by (simp add: s f64_of_int_120 f64_of_int_150 f64_div_def numeral_2_eq_2)
  then have b: "g17 ! 2 = Fin (- (5629499534213119 / 281474976710656))"
    by (simp only: growth_120_150)
  from g n' z' a b s show ?thesis by auto
qed

theorem yearly_growth_rounding_counterexample:
  "yf_total_17_plus (yearly_growth sample_years) = [100, 150, 120]
   \<and> yf_growth_17_plus (yearly_growth sample_years)
       = Some [NaN, Fin 50, Fin (- (5629499534213119 / 281474976710656))]
   \<and> Fin (- (5629499534213119 / 281474976710656)) \<noteq> Fin (- 20)
   \<and> Fin (- (5629499534213119 / 281474976710656)) \<noteq> Fin ((120 - 150) / 150 * 100)
   \<and> yf_total_17_plus (yearly_growth sample_wrap_year) = [- 9223372036854775808]
   \<and> sum_list (map tt_total_17_plus sample_wrap_year) = 9223372036854775808"
  using sample_years_totals(3) sample_years_growth sample_wrap_year_total
  by (simp add: sample_wrap_year_def trend_def)

text \<open>
  C4, as the code has it. pandas' \<^verbatim>\<open>pct_change\<close> divides by the preceding total without
  a guard. When a year's preceding total is zero its growth is \<open>inf\<close> if the year's own
  total is positive, \<open>-inf\<close> if it is negative, and missing (\<open>nan\<close>) only if it is zero
  as well.
\<close>

theorem zero_previous_year_growth:
  "f = yearly_growth tt \<Longrightarrow> Suc i < length (yf_year f) \<Longrightarrow>
   (yf_total_5_17 f ! i = 0 \<longrightarrow>
      (\<exists>g. yf_growth_5_17 f = Some g \<and>
         g ! Suc i = (if yf_total_5_17 f ! Suc i > 0 then PInf
                      else if yf_total_5_17 f ! Suc i < 0 then NInf else NaN)))
   \<and> (yf_total_17_plus f ! i = 0 \<longrightarrow>
      (\<exists>g. yf_growth_17_plus f = Some g \<and>
         g ! Suc i = (if yf_total_17_plus f ! Suc i > 0 then PInf
                      else if yf_total_17_plus f ! Suc i < 0 then NInf else NaN)))"
proof -
  assume f: "f = yearly_growth tt" and i: "Suc i < length (yf_year f)"
  let ?t5 = "map (group_sum tt_total_5_17 tt) (group_keys tt)"
  let ?t17 = "map (group_sum tt_total_17_plus tt) (group_keys tt)"
  from i have i5: "Suc i < length ?t5" and i17: "Suc i < length ?t17"
    unfolding f yearly_growth_fields by simp_all
  show ?thesis
    unfolding f yearly_growth_fields
    using growth_pct_zero [OF i5] growth_pct_zero [OF i17] by blast
qed

theorem zero_previous_year_growth_witness:
  "yf_total_17_plus (yearly_growth sample_zero_year) = [0, 150]
   \<and> (\<exists>g. yf_growth_17_plus (yearly_growth sample_zero_year) = Some g \<and> g ! 1 = PInf)"
proof -
  have s: "yf_year (yearly_growth sample_zero_year) = [2021, 2022]"
      "yf_total_17_plus (yearly_growth sample_zero_year) = [0, 150]"
    by (simp_all add: sample_zero_year_totals)
  have i: "Suc 0 < length (yf_year (yearly_growth sample_zero_year))"
    by (simp add: s)
  from zero_previous_year_growth [OF refl i] s show ?thesis
    by simp
qed

theorem zero_previous_year_counterexample:
  "yf_total_17_plus (yearly_growth sample_zero_year) = [0, 150]
   \<and> yf_growth_17_plus (yearly_growth sample_zero_year) = Some [NaN, PInf]"
  by (simp add: sample_zero_year_totals sample_zero_year_growth)

subsection \<open>The demand forecast\<close>

lemma iloc_Nil: "iloc [] i = Inl IndexError"
  by (simp add: iloc_def)

lemma iloc_first: "xs \<noteq> [] \<Longrightarrow> iloc xs 0 = Inr (hd xs)"
  by (cases xs) (simp_all add: iloc_def)

lemma iloc_last: "xs \<noteq> [] \<Longrightarrow> iloc xs (- 1) = Inr (last xs)"
proof -
  assume n: "xs \<noteq> []"
  then have "nat (int (length xs) + - 1) = length xs - 1" by (cases xs) simp_all
  with n show ?thesis by (simp add: iloc_def last_conv_nth Suc_le_eq)
qed

lemma tail_Nil_iff: "tail n xs = [] \<longleftrightarrow> xs = [] \<or> n = 0"
  by (cases xs) (auto simp: tail_def)

lemma last_tail: "xs \<noteq> [] \<Longrightarrow> 0 < n \<Longrightarrow> last (tail n xs) = last xs"
  by (simp add: tail_def)

lemma length_tail: "length (tail n xs) = min n (length xs)"
  by (simp add: tail_def)

lemma avg_growth_Nil: "avg_growth [] = Inl IndexError"
  by (simp add: avg_growth_def tail_def iloc_Nil)

lemma avg_growth_nonempty:
  assumes "tt \<noteq> []"
  shows "avg_growth tt =
     Inr (np_shift (- 1)
           (np_root (np_div (real_of_int (tt_total_17_plus (last tt)))
                            (real_of_int (tt_total_17_plus (hd (tail 12 tt))))) (1 / 12)))"
proof -
  have w: "tail 12 tt \<noteq> []" using assms by (simp add: tail_Nil_iff)
  then have m: "map tt_total_17_plus (tail 12 tt) \<noteq> []" by simp
  have l: "last (map tt_total_17_plus (tail 12 tt)) = tt_total_17_plus (last tt)"
    using w assms by (simp add: last_map last_tail)
  have h: "hd (map tt_total_17_plus (tail 12 tt)) = tt_total_17_plus (hd (tail 12 tt))"
    using w by (simp add: hd_map)
  show ?thesis
    unfolding avg_growth_def Let_def iloc_last [OF m] iloc_first [OF m] l h by simp
qed

lemma fold_max_sorted:
  "sorted (x # xs) \<Longrightarrow> fold max xs x = last (x # xs)"
proof (induction xs arbitrary: x)
  case Nil
  then show ?case by simp
next
  case (Cons y ys)
  from Cons.prems have xy: "x \<le> y" and s: "sorted (y # ys)" by simp_all
  from xy have "max y x = y" by (rule max.absorb1)
  with Cons.IH [OF s] show ?case by simp
qed

lemma last_date_sorted:
  assumes "sorted (map date (r # rs))"
  shows "fold max (map date rs) (date r) = date (last (r # rs))"
proof -
  have "fold max (map date rs) (date r) = last (date r # map date rs)"
    using assms by (intro fold_max_sorted) simp
  also have "\<dots> = date (last (r # rs))"
    by (simp add: last_map)
  finally show ?thesis .
qed

lemma zip_maps: "zip (map f xs) (map g xs) = map (\<lambda>x. (f x, g x)) xs"
  by (induction xs) simp_all

lemma forecast_Nil: "forecast [] n = Inl IndexError"
  by (simp add: forecast_def avg_growth_Nil)

lemma forecast_Cons:
  "forecast (r # rs) n =
     Inr (map (\<lambda>k. (add_months k (fold max (map date rs) (date r)),
                    np_scale (real_of_int (tt_total_17_plus (last (r # rs))))
                      (np_power
                         (np_shift 1
                            (np_shift (- 1)
                               (np_root (np_div (real_of_int (tt_total_17_plus (last (r # rs))))
                                                (real_of_int (tt_total_17_plus (hd (tail 12 (r # rs))))))
                                  (1 / 12)))) k)))
            [1 ..< n + 1])"
proof -
  have m: "map tt_total_17_plus (r # rs) \<noteq> []" by simp
  have l: "last (map tt_total_17_plus (r # rs)) = tt_total_17_plus (last (r # rs))"
    by (simp only: last_map [OF list.distinct(2)])
  show ?thesis
    unfolding forecast_def avg_growth_nonempty [OF list.distinct(2)] Let_def
      iloc_last [OF m] l
    by (simp only: sum.case list.case zip_maps)
qed

lemma np_power_Fin: "np_power (Fin x) i = Fin (x ^ i)"
  by (cases i) simp_all

lemma finite_step:
  "0 < k \<Longrightarrow>
   is_finite (np_scale c (np_power (np_shift 1 (np_shift (- 1) (np_root (np_div l f) e))) k))
     = (f \<noteq> 0 \<and> 0 \<le> l / f)"
  by (cases k) (simp_all add: np_div_def)

lemma ratio_sign:
  "f \<noteq> 0 \<Longrightarrow> (0 \<le> real_of_int l / real_of_int f) = (0 \<le> l * f)"
  by (simp add: zero_le_divide_iff zero_le_mult_iff)

lemma positive_step:
  assumes "0 < f" "0 \<le> l"
  shows "np_scale l (np_power (np_shift 1 (np_shift (- 1) (np_root (np_div l f) e))) k)
     = Fin (l * (1 + ((l / f) powr e - 1)) ^ k)"
proof -
  from assms have "\<not> l / f < 0" by (simp add: not_less)
  with assms show ?thesis by (simp add: np_div_def np_power_Fin)
qed

lemma add_months_next:
  "add_months 1 (y, 12) = (y + 1, 1)"
  "1 \<le> m \<Longrightarrow> m < 12 \<Longrightarrow> add_months 1 (y, m) = (y, m + 1)"
  by (simp_all add: add_months_def Let_def)

lemma pow_lo: "(1.05945 :: real) ^ 12 < 2"
  by (simp add: power_divide)

lemma pow_hi: "(2 :: real) < 1.0595 ^ 12"
  by (simp add: power_divide)

lemma root12_pow: "(2 powr (1 / 12)) ^ 12 = (2 :: real)"
  by (simp add: powr_realpow [symmetric] powr_powr)

lemma root12_lower: "(1.05945 :: real) < 2 powr (1 / 12)"
proof (rule ccontr)
  assume "\<not> (1.05945 :: real) < 2 powr (1 / 12)"
  then have le: "2 powr (1 / 12) \<le> (1.05945 :: real)" by simp
  have "(2 powr (1 / 12)) ^ 12 \<le> (1.05945 :: real) ^ 12"
    using le by (intro power_mono) simp_all
  with root12_pow pow_lo show False by linarith
qed

lemma root12_upper: "2 powr (1 / 12) < (1.0595 :: real)"
proof (rule ccontr)
  assume "\<not> 2 powr (1 / 12) < (1.0595 :: real)"
  then have le: "(1.0595 :: real) \<le> 2 powr (1 / 12)" by simp
  have "(1.0595 :: real) ^ 12 \<le> (2 powr (1 / 12)) ^ 12"
    using le by (intro power_mono) simp_all
  with root12_pow pow_hi show False by linarith
qed

lemma root11_lower: "(1.0645 :: real) < 2 powr (1 / 11)"
proof (rule ccontr)
  assume "\<not> (1.0645 :: real) < 2 powr (1 / 11)"
  then have le: "2 powr (1 / 11) \<le> (1.0645 :: real)" by simp
  have "(2 powr (1 / 11)) ^ 11 \<le> (1.0645 :: real) ^ 11"
    using le by (intro power_mono) simp_all
  moreover have "(2 powr (1 / 11)) ^ 11 = (2 :: real)"
    by (simp add: powr_realpow [symmetric] powr_powr)
  moreover have "(1.0645 :: real) ^ 11 < 2"
    by (simp add: power_divide)
  ultimately show False by linarith
qed

lemma sample_forecast:
  "forecast sample_trends 1 = Inr [((2025, 1), Fin (200 * 2 powr (1 / 12)))]"
  unfolding forecast_def
  by (simp add: avg_growth_def iloc_def tail_def sample_trends_def trend_def np_div_def
      date_def add_months_def)

lemma sample_window:
  "length (tail 12 sample_trends) = 12"
  "tt_total_17_plus (hd (tail 12 sample_trends)) = 100"
  "tt_total_17_plus (last sample_trends) = 200"
  "date (last sample_trends) = (2024, 12)"
  by (simp_all add: tail_def sample_trends_def trend_def date_def)

lemma sample_sorted: "sorted (map date sample_trends)"
  by (simp add: sample_trends_def trend_def date_def)

text \<open>
  C1, as the code has it. For a series of at least two rows, ascending by date, whose
  trailing window starts at a positive value and ends at a non-negative one, and a
  horizon \<open>n \<ge> 1\<close>: the window is the last 12 rows (all of them when there are fewer);
  the growth rate is \<open>g = (last / first) powr (1 / 12) - 1\<close>, the exponent being
  \<open>1 / 12\<close> whatever the length of the window; the forecast is the \<open>n\<close> values
  \<open>last * (1 + g) ^ k\<close>, \<open>k = 1 .. n\<close>, dated month by month from the month after the
  last row's. (The script's horizon is the constant 6.) With a 12-row window from 100
  to 200 and \<open>n = 1\<close> the forecast value is \<open>200 * 2 powr (1 / 12)\<close>, about 211.89.
\<close>

theorem forecast_compound_growth:
  fixes tt :: "trend_row list"
  defines "firstValue \<equiv> real_of_int (tt_total_17_plus (hd (tail 12 tt)))"
    and "lastValue \<equiv> real_of_int (tt_total_17_plus (last tt))"
  defines "g \<equiv> (lastValue / firstValue) powr (1 / 12) - 1"
  assumes "2 \<le> length tt" and "sorted (map date tt)" and "1 \<le> n"
    and "0 < firstValue" and "0 \<le> lastValue"
  shows "tail 12 tt = drop (length tt - 12) tt
    \<and> length (tail 12 tt) = min 12 (length tt)
    \<and> forecast tt n =
        Inr (map (\<lambda>k. (add_months k (date (last tt)), Fin (lastValue * (1 + g) ^ k)))
               [1 ..< n + 1])"
proof -
  from assms(4) obtain r rs where tt: "tt = r # rs" by (cases tt) auto
  have d: "fold max (map date rs) (date r) = date (last tt)"
    using assms(5) unfolding tt by (rule last_date_sorted)
  have "forecast tt n =
        Inr (map (\<lambda>k. (add_months k (date (last tt)), Fin (lastValue * (1 + g) ^ k)))
               [1 ..< n + 1])"
    unfolding tt forecast_Cons
    using assms(7,8) d
    by (simp add: positive_step firstValue_def lastValue_def g_def tt)
  then show ?thesis by (simp add: tail_def)
qed

theorem forecast_compound_growth_witness:
  "forecast sample_trends 1 = Inr [((2025, 1), Fin (200 * 2 powr (1 / 12)))]
   \<and> length (tail 12 sample_trends) = 12
   \<and> (211.89 :: real) < 200 * 2 powr (1 / 12) \<and> 200 * 2 powr (1 / 12) < (211.9 :: real)"
proof -
  have l: "2 \<le> length sample_trends" by (simp add: sample_trends_def)
  have pos: "0 < real_of_int (tt_total_17_plus (hd (tail 12 sample_trends)))"
    and nn: "0 \<le> real_of_int (tt_total_17_plus (last sample_trends))"
    by (simp_all add: sample_window)
  note t = forecast_compound_growth [OF l sample_sorted le_refl pos nn]
  have "forecast sample_trends 1 = Inr [((2025, 1), Fin (200 * 2 powr (1 / 12)))]"
    using conjunct2 [OF conjunct2 [OF t]]
    unfolding sample_window by (simp add: add_months_def)
  then show ?thesis
    using root12_lower root12_upper by (simp add: sample_window)
qed

theorem forecast_root_counterexample:
  "length (tail 12 sample_trends) = 12
   \<and> tt_total_17_plus (hd (tail 12 sample_trends)) = 100
   \<and> tt_total_17_plus (last sample_trends) = 200
   \<and> forecast sample_trends 1 = Inr [((2025, 1), Fin (200 * 2 powr (1 / 12)))]
   \<and> 200 * 2 powr (1 / 12) < (211.9 :: real)
   \<and> (212.9 :: real) < 200 * 2 powr (1 / 11)"
  using sample_forecast root12_upper root11_lower by (simp add: sample_window)

lemma forecast_length: "tt \<noteq> [] \<Longrightarrow> \<exists>pts. forecast tt n = Inr pts \<and> length pts = n"
  by (cases tt) (simp_all add: forecast_Cons)

lemma forecast_finite:
  assumes "forecast tt n = Inr pts" and "p \<in> set pts"
  shows "is_finite (snd p) =
     (tt_total_17_plus (hd (tail 12 tt)) \<noteq> 0
      \<and> 0 \<le> tt_total_17_plus (last tt) * tt_total_17_plus (hd (tail 12 tt)))"
proof -
  let ?v = "\<lambda>k. np_scale (real_of_int (tt_total_17_plus (last tt)))
                      (np_power
                         (np_shift 1
                            (np_shift (- 1)
                               (np_root (np_div (real_of_int (tt_total_17_plus (last tt)))
                                                (real_of_int (tt_total_17_plus (hd (tail 12 tt)))))
                                  (1 / 12)))) k)"
  from assms(1) obtain r rs where tt: "tt = r # rs"
    by (cases tt) (simp_all add: forecast_Nil)
  have "pts = map (\<lambda>k. (add_months k (fold max (map date rs) (date r)), ?v k)) [1 ..< n + 1]"
    using assms(1) unfolding tt forecast_Cons by (simp only: sum.inject)
  with assms(2) have "p \<in> (\<lambda>k. (add_months k (fold max (map date rs) (date r)), ?v k))
        ` set [1 ..< n + 1]"
    by (simp only: set_map)
  then obtain k where k: "k \<in> set [1 ..< n + 1]"
    and p: "p = (add_months k (fold max (map date rs) (date r)), ?v k)"
    by (rule imageE)
  from k have k0: "0 < k" by (simp only: set_upt atLeastLessThan_iff) arith
  from p have s: "snd p = ?v k" by (simp only: snd_conv)
  show ?thesis
    unfolding s finite_step [OF k0]
    by (cases "tt_total_17_plus (hd (tail 12 tt)) = 0") (simp_all add: ratio_sign)
qed

lemma one_row_forecast:
  "demand_forecast [trend 2024 12 10 5] =
     Inr [((2025, 1), Fin 5), ((2025, 2), Fin 5), ((2025, 3), Fin 5),
          ((2025, 4), Fin 5), ((2025, 5), Fin 5), ((2025, 6), Fin 5)]"
  unfolding demand_forecast_def forecast_def future_months_def
  by (simp add: avg_growth_def iloc_def tail_def trend_def np_div_def date_def add_months_def
      upt_rec)

lemma zero_start_forecast:
  "forecast [trend 2024 11 10 0, trend 2024 12 10 5] 1 = Inr [((2025, 1), PInf)]"
  unfolding forecast_def
  by (simp add: avg_growth_def iloc_def tail_def trend_def np_div_def date_def add_months_def)

lemma negative_start_forecast:
  "forecast [trend 2024 11 10 (- 4), trend 2024 12 10 5] 1 = Inr [((2025, 1), NaN)]"
  unfolding forecast_def
  by (simp add: avg_growth_def iloc_def tail_def trend_def np_div_def date_def add_months_def)

text \<open>
  C2, as the code has it. The forecast validates nothing and names no
  \<^verbatim>\<open>InvalidForecastInput\<close>. It fails, with pandas' IndexError, exactly when the history
  is empty. For every other history, a single row included, it returns one value per
  month of the horizon; the values are finite when the trailing window's first value
  is non-zero and the last value is zero or of the same sign, and otherwise every one
  of them is \<open>inf\<close>, \<open>-inf\<close> or \<open>nan\<close>.
\<close>

theorem forecast_no_validation:
  "(forecast tt n = Inl IndexError \<longleftrightarrow> tt = [])
   \<and> (tt \<noteq> [] \<longrightarrow>
        (\<exists>pts. forecast tt n = Inr pts \<and> length pts = n
           \<and> (\<forall>p \<in> set pts. is_finite (snd p) =
                 (tt_total_17_plus (hd (tail 12 tt)) \<noteq> 0
                  \<and> 0 \<le> tt_total_17_plus (last tt) * tt_total_17_plus (hd (tail 12 tt))))))"
proof (intro conjI impI)
  show "forecast tt n = Inl IndexError \<longleftrightarrow> tt = []"
    by (cases tt) (simp_all add: forecast_Nil forecast_Cons)
  assume "tt \<noteq> []"
  then obtain pts where pts: "forecast tt n = Inr pts" "length pts = n"
    using forecast_length by blast
  with forecast_finite [OF pts(1)]
  show "\<exists>pts. forecast tt n = Inr pts \<and> length pts = n
           \<and> (\<forall>p \<in> set pts. is_finite (snd p) =
                 (tt_total_17_plus (hd (tail 12 tt)) \<noteq> 0
                  \<and> 0 \<le> tt_total_17_plus (last tt) * tt_total_17_plus (hd (tail 12 tt))))"
    by blast
qed

theorem forecast_no_validation_witness:
  "forecast [] 6 = Inl IndexError
   \<and> (\<exists>pts. forecast [trend 2024 12 10 5] 6 = Inr pts \<and> length pts = 6
         \<and> list_all (\<lambda>p. is_finite (snd p)) pts)
   \<and> (\<exists>pts. forecast [trend 2024 11 10 0, trend 2024 12 10 5] 6 = Inr pts \<and> length pts = 6
         \<and> list_all (\<lambda>p. \<not> is_finite (snd p)) pts)"
proof -
  have a: "forecast [] 6 = Inl IndexError"
    using forecast_no_validation [of "[]" 6] by simp
  have b: "\<exists>pts. forecast [trend 2024 12 10 5] 6 = Inr pts \<and> length pts = 6
         \<and> list_all (\<lambda>p. is_finite (snd p)) pts"
    using forecast_no_validation [of "[trend 2024 12 10 5]" 6]
    by (simp add: tail_def trend_def list_all_iff)
  have c: "\<exists>pts. forecast [trend 2024 11 10 0, trend 2024 12 10 5] 6 = Inr pts \<and> length pts = 6
         \<and> list_all (\<lambda>p. \<not> is_finite (snd p)) pts"
    using forecast_no_validation [of "[trend 2024 11 10 0, trend 2024 12 10 5]" 6]
    by (simp add: tail_def trend_def list_all_iff)
  from a b c show ?thesis by blast
qed

theorem forecast_validation_counterexample:
  "demand_forecast [trend 2024 12 10 5] =
     Inr [((2025, 1), Fin 5), ((2025, 2), Fin 5), ((2025, 3), Fin 5),
          ((2025, 4), Fin 5), ((2025, 5), Fin 5), ((2025, 6), Fin 5)]
   \<and> forecast [trend 2024 11 10 0, trend 2024 12 10 5] 1 = Inr [((2025, 1), PInf)]
   \<and> forecast [trend 2024 11 10 (- 4), trend 2024 12 10 5] 1 = Inr [((2025, 1), NaN)]"
  using one_row_forecast zero_start_forecast negative_start_forecast by blast

subsection \<open>The input tables\<close>



lemma districts_at_new:
  "districts_at (s @ [DistrictFrame rows]) (length s) = rows"
  by (simp add: districts_at_def)

lemma districts_at_old:
  "a < length s \<Longrightarrow> districts_at (s @ [f]) a = districts_at s a"
  by (simp add: districts_at_def nth_append)

lemma districts_at_fresh:
  "n = length s \<Longrightarrow> districts_at (s @ [DistrictFrame rows]) n = rows"
  by (simp add: districts_at_def)



text \<open>The store computations return what the functions on rows compute.\<close>

lemma run_filter_result:
  "districts_at (snd (run_filter dp sel rng anom s)) (fst (run_filter dp sel rng anom s))
     = filtered_data (districts_at s dp) sel rng anom"
proof (cases "''All States'' \<in> set sel"; cases anom)
  qed (simp_all add: run_filter_def new_frame_def filtered_data_def districts_at_fresh
    del: append_assoc)



lemma run_nlargest_result:
  "districts_at (snd (run_nlargest k col fd s)) (fst (run_nlargest k col fd s))
     = nlargest k col (districts_at s fd)"
  by (simp add: run_nlargest_def new_frame_def districts_at_new)




lemma run_scenario_result:
  "fst (run_scenario dp targets grp gr bu s)
     = scenario_panel (districts_at s dp) targets grp gr bu"
proof (cases "targets = []")
  case True
  then show ?thesis by (simp add: run_scenario_def scenario_panel_def)
next
  case False
  then show ?thesis
    by (simp add: run_scenario_def scenario_panel_def new_frame_def districts_at_new)
qed



end
